theory Spec2Isabelle
  imports Complex_Main "HOL-Library.Product_Lexorder" "HOL-Library.Char_ord"
    "HOL-Library.List_Lexorder"
begin

section \<open>Data model of the sales dashboard\<close>

text \<open>
  The dashboard script \<^verbatim>\<open>dashboard-1.py\<close> loads an order table, narrows it by a chain
  of filters and computes KPIs and grouped tables from the narrowed view. The table is a
  pandas DataFrame; it is modelled as the list of its columns' names and the list of its
  rows.

  A calendar date is the triple (year, month, day) and a timestamp is a date with a time
  of day; both are compared lexicographically, as Python compares dates and pandas
  compares timestamps. A monthly period is the pair (year, month).
\<close>

type_synonym date = "nat \<times> nat \<times> nat"
type_synonym timestamp = "date \<times> nat"
type_synonym period = "nat \<times> nat"

text \<open>
  The columns the script reads. The source names them in Korean; the constructors carry
  the English meaning: order date (parsed at load, line 108), order channel, event flag,
  product name, option code, address, purpose, option selected by the customer, order
  quantity, amount actually paid, margin (derived at load, line 121), customer UID,
  order number, seller name, region. Of the region column only the presence matters to
  what is modelled, so a row has no field for it.
\<close>

datatype column =
    Order_date | Channel | Event_flag | Product_name | Option_code | Address | Purpose
  | Selected_option | Quantity | Paid_amount | Margin | UID | Order_no | Seller_name | Region

text \<open>
  One row of the table. A text or numeric cell may be missing (NaN in pandas), which is
  \<open>None\<close>; the order date is a parsed timestamp. Amounts are exact rationals: the
  rounding of binary floating point is not modelled. The field of a column that the
  frame does not have is never read.
\<close>

record order_row =
  order_date :: timestamp
  channel :: "string option"
  event_flag :: "string option"
  product_name :: "string option"
  option_code :: "string option"
  address :: "string option"
  purpose :: "string option"
  selected_option :: "string option"
  quantity :: "rat option"
  paid_amount :: "rat option"
  margin :: "rat option"
  uid :: "string option"
  order_no :: "string option"
  seller_name :: "string option"

record frame =
  columns :: "column list"
  rows :: "order_row list"

text \<open>\<^verbatim>\<open>DataFrame.empty\<close>: true when either axis has length zero.\<close>

definition empty_df :: "frame \<Rightarrow> bool" where
  "empty_df df = (rows df = [] \<or> columns df = [])"

text \<open>
  The exceptions of the script: a column that the frame does not have,
  \<^verbatim>\<open>re.error\<close> for a keyword that is no regular expression, and an exception raised
  inside a call of the charting library.
  \<open>Unmodelled_pattern\<close> is no exception of the script: it marks a keyword whose syntax
  lies outside the fragment of regular expressions modelled below, and nothing is stated
  about such a keyword.
\<close>

datatype error = KeyError column | PatternError | ChartError | Unmodelled_pattern

text \<open>\<^verbatim>\<open>Timestamp.date()\<close> and \<^verbatim>\<open>dt.to_period('M')\<close>.\<close>

definition dt_date :: "timestamp \<Rightarrow> date" where
  "dt_date ts = fst ts"

definition to_period_M :: "timestamp \<Rightarrow> period" where
  "to_period_M ts = (case ts of ((y, m, d), t) \<Rightarrow> (y, m))"

section \<open>The filter chain (source lines 176--206)\<close>

text \<open>
  Lines 179--184. \<^verbatim>\<open>date_range\<close> is the tuple that the date widget returns; only a
  tuple of two dates filters.
\<close>

definition date_filter :: "date list \<Rightarrow> frame \<Rightarrow> frame" where
  "date_filter date_range df =
     (if length date_range = 2 then
        (let start_date = date_range ! 0; end_date = date_range ! 1
         in df\<lparr>rows := filter (\<lambda>r. dt_date (order_date r) \<ge> start_date
                                   \<and> dt_date (order_date r) \<le> end_date) (rows df)\<rparr>)
      else df)"

text \<open>
  Lines 187--188. \<^verbatim>\<open>isin\<close> is membership in the selected values; a missing channel
  is a value of its own there.
\<close>

definition channel_filter :: "string option list \<Rightarrow> frame \<Rightarrow> frame" where
  "channel_filter selected_channels df =
     (if selected_channels \<noteq> [] then
        df\<lparr>rows := filter (\<lambda>r. channel r \<in> set selected_channels) (rows df)\<rparr>
      else df)"

text \<open>Lines 191--192.\<close>

definition event_filter :: "bool \<Rightarrow> frame \<Rightarrow> frame" where
  "event_filter show_event_only df =
     (if show_event_only \<and> Event_flag \<in> set (columns df) then
        df\<lparr>rows := filter (\<lambda>r. event_flag r = Some ''Y'') (rows df)\<rparr>
      else df)"

section \<open>Regular expressions (Python's \<^verbatim>\<open>re\<close>, as \<^verbatim>\<open>str.contains\<close> uses it)\<close>

text \<open>
  Line 204 calls \<^verbatim>\<open>str.contains(prompt, case=False)\<close> and leaves \<^verbatim>\<open>regex\<close> at its
  default \<open>True\<close>: pandas compiles the keyword with \<^verbatim>\<open>re.compile\<close> under the flag
  \<^verbatim>\<open>IGNORECASE\<close> and keeps a cell when \<^verbatim>\<open>search\<close> finds a match anywhere in it.

  The model covers a fragment of the syntax: ordinary characters, \<open>.\<close>, grouping
  with parentheses, alternation with \<open>|\<close>, the quantifiers \<open>*\<close>, \<open>+\<close> and \<open>?\<close>, and a
  backslash before a character that is neither a letter nor a digit. A pattern that uses
  anything else (a character class, a counted repetition, an anchor, an escape of a
  letter or digit, a group that starts with \<open>?\<close>, a quantifier right after a quantifier)
  is \<open>Unsupported\<close>. A character is one of the 256 values of \<^typ>\<open>char\<close> and case is
  folded on the ASCII letters.
\<close>

datatype rexp = Fail | Empty | Lit char | Any_char | Alt rexp rexp | Cat rexp rexp | Rep rexp

datatype compiled = Compiled rexp | Bad_pattern | Unsupported

definition lower :: "char \<Rightarrow> char" where
  "lower c =
     (case map_of (zip ''ABCDEFGHIJKLMNOPQRSTUVWXYZ'' ''abcdefghijklmnopqrstuvwxyz'') c of
        Some d \<Rightarrow> d
      | None \<Rightarrow> c)"

text \<open>
  Matching by derivatives: \<open>deriv c r\<close> matches what \<open>r\<close> matches after a first
  character \<open>c\<close>. The dot matches every character but the line feed.
\<close>

fun nullable :: "rexp \<Rightarrow> bool" where
  "nullable Fail = False"
| "nullable Empty = True"
| "nullable (Lit c) = False"
| "nullable Any_char = False"
| "nullable (Alt r s) = (nullable r \<or> nullable s)"
| "nullable (Cat r s) = (nullable r \<and> nullable s)"
| "nullable (Rep r) = True"

fun alt :: "rexp \<Rightarrow> rexp \<Rightarrow> rexp" where
  "alt Fail s = s"
| "alt r Fail = r"
| "alt r s = Alt r s"

fun cat :: "rexp \<Rightarrow> rexp \<Rightarrow> rexp" where
  "cat Fail s = Fail"
| "cat Empty s = s"
| "cat r s = Cat r s"

fun deriv :: "char \<Rightarrow> rexp \<Rightarrow> rexp" where
  "deriv c Fail = Fail"
| "deriv c Empty = Fail"
| "deriv c (Lit d) = (if lower c = lower d then Empty else Fail)"
| "deriv c Any_char = (if c = CHR 0x0A then Fail else Empty)"
| "deriv c (Alt r s) = alt (deriv c r) (deriv c s)"
| "deriv c (Cat r s) =
     (if nullable r then alt (cat (deriv c r) s) (deriv c s) else cat (deriv c r) s)"
| "deriv c (Rep r) = cat (deriv c r) (Rep r)"

text \<open>\<open>match_here r t\<close>: some prefix of \<open>t\<close> matches; \<open>search r t\<close>: some part of \<open>t\<close> does.\<close>

fun match_here :: "rexp \<Rightarrow> string \<Rightarrow> bool" where
  "match_here r [] = nullable r"
| "match_here r (c # cs) = (nullable r \<or> match_here (deriv c r) cs)"

fun search :: "rexp \<Rightarrow> string \<Rightarrow> bool" where
  "search r [] = nullable r"
| "search r (c # cs) = (match_here r (c # cs) \<or> search r cs)"

text \<open>
  The parser reads the pattern from left to right with one level per open parenthesis.
  A level holds the finished alternatives, the items of the alternative being read, and
  whether the last item already carries a quantifier.
\<close>

type_synonym level = "rexp list \<times> rexp list \<times> bool"

definition seq_of :: "rexp list \<Rightarrow> rexp" where
  "seq_of items = foldr Cat items Empty"

fun alts_of :: "rexp list \<Rightarrow> rexp" where
  "alts_of [] = Fail"
| "alts_of [r] = r"
| "alts_of (r # rs) = Alt r (alts_of rs)"

definition close :: "level \<Rightarrow> rexp" where
  "close lv = (case lv of (alts, items, q) \<Rightarrow> alts_of (alts @ [seq_of items]))"

definition push :: "rexp \<Rightarrow> level \<Rightarrow> level" where
  "push r lv = (case lv of (alts, items, q) \<Rightarrow> (alts, items @ [r], False))"

definition quantify :: "char \<Rightarrow> rexp \<Rightarrow> rexp" where
  "quantify c r =
     (if c = CHR ''*'' then Rep r
      else if c = CHR ''+'' then Cat r (Rep r)
      else Alt r Empty)"

definition is_alnum :: "char \<Rightarrow> bool" where
  "is_alnum c = ((CHR ''0'' \<le> c \<and> c \<le> CHR ''9'') \<or> (CHR ''A'' \<le> c \<and> c \<le> CHR ''Z'')
                 \<or> (CHR ''a'' \<le> c \<and> c \<le> CHR ''z''))"

text \<open>
  \<open>Bad_pattern\<close> is \<^verbatim>\<open>re.error\<close>: a parenthesis without its partner, a quantifier with
  nothing to repeat, a backslash that ends the pattern.
\<close>

fun parse :: "string \<Rightarrow> level list \<Rightarrow> compiled" where
  "parse [] stack = (case stack of [lv] \<Rightarrow> Compiled (close lv) | _ \<Rightarrow> Bad_pattern)"
| "parse (c # cs) stack =
     (case stack of
        [] \<Rightarrow> Bad_pattern
      | lv # outer \<Rightarrow>
          if c = CHR ''('' then
            (case cs of
               d # ds \<Rightarrow> if d = CHR ''?'' then Unsupported
                         else parse cs (([], [], False) # stack)
             | [] \<Rightarrow> parse cs (([], [], False) # stack))
          else if c = CHR '')'' then
            (case outer of
               [] \<Rightarrow> Bad_pattern
             | up # rest \<Rightarrow> parse cs (push (close lv) up # rest))
          else if c = CHR ''|'' then
            (case lv of (alts, items, q) \<Rightarrow> parse cs ((alts @ [seq_of items], [], False) # outer))
          else if c = CHR ''*'' \<or> c = CHR ''+'' \<or> c = CHR ''?'' then
            (case lv of (alts, items, q) \<Rightarrow>
               if items = [] then Bad_pattern
               else if q then Unsupported
               else parse cs ((alts, butlast items @ [quantify c (last items)], True) # outer))
          else if c = CHR ''.'' then parse cs (push Any_char lv # outer)
          else if c = CHR 0x5C then
            (case cs of
               [] \<Rightarrow> Bad_pattern
             | d # ds \<Rightarrow> if is_alnum d then Unsupported else parse ds (push (Lit d) lv # outer))
          else if c = CHR ''['' \<or> c = CHR ''{'' \<or> c = CHR ''^'' \<or> c = CHR ''$'' then Unsupported
          else parse cs (push (Lit c) lv # outer))"

definition re_compile :: "string \<Rightarrow> compiled" where
  "re_compile pat = parse pat [([], [], False)]"

section \<open>Keyword filter (source lines 195--206)\<close>

text \<open>Line 198: the columns searched, in the order of the source.\<close>

definition search_cols :: "column list" where
  "search_cols = [Product_name, Option_code, Address, Channel, Purpose, Selected_option]"

text \<open>
  The cell of a text column. The loop of line 203 reads the columns of
  \<open>search_cols\<close> only, so the last equation is never used.
\<close>

fun text_of :: "column \<Rightarrow> order_row \<Rightarrow> string option" where
  "text_of Product_name r = product_name r"
| "text_of Option_code r = option_code r"
| "text_of Address r = address r"
| "text_of Channel r = channel r"
| "text_of Purpose r = purpose r"
| "text_of Selected_option r = selected_option r"
| "text_of Event_flag r = event_flag r"
| "text_of UID r = uid r"
| "text_of Order_no r = order_no r"
| "text_of Seller_name r = seller_name r"
| "text_of c r = None"

text \<open>\<^verbatim>\<open>astype(str)\<close>: a missing cell becomes the text \<^verbatim>\<open>nan\<close>.\<close>

definition astype_str :: "string option \<Rightarrow> string" where
  "astype_str v = (case v of None \<Rightarrow> ''nan'' | Some s \<Rightarrow> s)"

text \<open>
  The regular-expression library as the script uses it. \<open>re pat\<close> stands for
  \<^verbatim>\<open>re.compile(pat, flags=re.IGNORECASE)\<close>: either the exception it raises, or the
  compiled pattern as the test \<^verbatim>\<open>pat.search(x) is not None\<close> on a text \<open>x\<close>. The
  keyword filter is written over any such library; \<open>re_fragment\<close> is the library
  modelled above.
\<close>

type_synonym regex_library = "string \<Rightarrow> error + (string \<Rightarrow> bool)"

definition re_fragment :: regex_library where
  "re_fragment pat =
     (case re_compile pat of
        Compiled r \<Rightarrow> Inr (search r)
      | Bad_pattern \<Rightarrow> Inl PatternError
      | Unsupported \<Rightarrow> Inl Unmodelled_pattern)"

text \<open>
  \<^verbatim>\<open>Series.str.contains(pat, case=False)\<close> with \<^verbatim>\<open>regex\<close> at its default \<open>True\<close>: the
  pattern is compiled once per call, before any cell is looked at, and a pattern that does
  not compile raises.
\<close>

definition str_contains :: "regex_library \<Rightarrow> string \<Rightarrow> string list \<Rightarrow> error + bool list" where
  "str_contains re pat texts =
     (case re pat of
        Inl e \<Rightarrow> Inl e
      | Inr found_in \<Rightarrow> Inr (map found_in texts))"

text \<open>Lines 203--204: the loop that ORs the hits of one column after the other into the mask.\<close>

fun mask_loop :: "regex_library \<Rightarrow> string \<Rightarrow> frame \<Rightarrow> column list \<Rightarrow> bool list
    \<Rightarrow> error + bool list" where
  "mask_loop re prompt df [] msk = Inr msk"
| "mask_loop re prompt df (col # cols) msk =
     (case str_contains re prompt (map (\<lambda>r. astype_str (text_of col r)) (rows df)) of
        Inl e \<Rightarrow> Inl e
      | Inr hits \<Rightarrow> mask_loop re prompt df cols (map (\<lambda>(m, h). m \<or> h) (zip msk hits)))"

text \<open>
  Lines 195--206. \<^verbatim>\<open>if prompt:\<close> is false for the empty text only; the keyword is not
  stripped.
\<close>

definition keyword_filter_with :: "regex_library \<Rightarrow> string \<Rightarrow> frame \<Rightarrow> error + frame" where
  "keyword_filter_with re prompt df =
     (if prompt \<noteq> [] then
        (let valid_cols = filter (\<lambda>c. c \<in> set (columns df)) search_cols
         in case mask_loop re prompt df valid_cols (replicate (length (rows df)) False) of
              Inl e \<Rightarrow> Inl e
            | Inr msk \<Rightarrow> Inr (df\<lparr>rows := map fst (filter snd (zip (rows df) msk))\<rparr>))
      else Inr df)"

text \<open>The keyword filter over the modelled library.\<close>

definition keyword_filter :: "string \<Rightarrow> frame \<Rightarrow> error + frame" where
  "keyword_filter prompt df = keyword_filter_with re_fragment prompt df"

section \<open>KPI metrics (source lines 217--220)\<close>

text \<open>\<^verbatim>\<open>Series.sum()\<close> skips missing values; the sum of no value is 0.\<close>

definition series_sum :: "rat option list \<Rightarrow> rat" where
  "series_sum xs = sum_list (map (\<lambda>v. case v of None \<Rightarrow> 0 | Some x \<Rightarrow> x) xs)"

text \<open>
  \<^verbatim>\<open>Series.mean()\<close> skips missing values; the mean of no value is NaN, which is
  \<open>None\<close> here.
\<close>

definition series_mean :: "rat option list \<Rightarrow> rat option" where
  "series_mean xs =
     (let vs = filter (\<lambda>v. v \<noteq> None) xs
      in if vs = [] then None else Some (series_sum vs / of_nat (length vs)))"

text \<open>
  The division of the floating-point numbers of numpy does not raise: by zero it gives an
  infinity or NaN. That result is \<open>None\<close> here, so that a division by zero is visible
  in the model and is not the value \<open>0\<close> that HOL gives \<open>x / 0\<close>.
\<close>

definition float_div :: "rat \<Rightarrow> rat \<Rightarrow> rat option" where
  "float_div x y = (if y = 0 then None else Some (x / y))"

definition total_sales :: "frame \<Rightarrow> rat" where
  "total_sales df = series_sum (map paid_amount (rows df))"

definition total_orders :: "frame \<Rightarrow> nat" where
  "total_orders df = length (rows df)"

definition avg_order_value :: "frame \<Rightarrow> rat option" where
  "avg_order_value df =
     (if total_orders df > 0 then float_div (total_sales df) (of_nat (total_orders df))
      else Some 0)"

definition avg_margin :: "frame \<Rightarrow> rat option" where
  "avg_margin df =
     (if Margin \<in> set (columns df) then series_mean (map margin (rows df)) else Some 0)"

section \<open>Grouping (pandas \<^verbatim>\<open>groupby\<close>, \<^verbatim>\<open>nunique\<close>)\<close>

fun dropna :: "'a option list \<Rightarrow> 'a list" where
  "dropna [] = []"
| "dropna (None # xs) = dropna xs"
| "dropna (Some x # xs) = x # dropna xs"

text \<open>
  \<^verbatim>\<open>groupby(key)\<close> with its defaults: rows whose key is missing are dropped, and the
  groups come in ascending order of the key.
\<close>

definition group_keys :: "('r \<Rightarrow> 'k::linorder option) \<Rightarrow> 'r list \<Rightarrow> 'k list" where
  "group_keys key rs = sort (remdups (dropna (map key rs)))"

definition group_rows :: "('r \<Rightarrow> 'k option) \<Rightarrow> 'r list \<Rightarrow> 'k \<Rightarrow> 'r list" where
  "group_rows key rs k = filter (\<lambda>r. key r = Some k) rs"

definition nunique :: "'a option list \<Rightarrow> nat" where
  "nunique xs = length (remdups (dropna xs))"

section \<open>Sorting a table (pandas \<^verbatim>\<open>sort_values\<close>)\<close>




section \<open>The default sorting routine (numpy's quicksort)\<close>

text \<open>
  \<^verbatim>\<open>kind='quicksort'\<close> is numpy's \<^verbatim>\<open>argsort\<close>, whose generic routine \<^verbatim>\<open>aquicksort\<close>
  (file \<^verbatim>\<open>npysort/quicksort.cpp\<close> of the library) is modelled here, to run the tables on
  given rows. A build of the library that hands the sort to a vectorised routine on some
  processors is not modelled.
\<close>












section \<open>Product ranking and VIP table (source lines 265--269 and 329--333)\<close>





section \<open>Seller analysis (source lines 341--404)\<close>

definition order_period :: "order_row \<Rightarrow> period" where
  "order_period r = to_period_M (order_date r)"

text \<open>Line 382: the distinct order months of the view, sorted.\<close>

definition periods :: "frame \<Rightarrow> period list" where
  "periods df = sort (remdups (map order_period (rows df)))"

text \<open>
  Lines 390--391: the Python set of the seller cells of the rows of one month. A missing
  seller name is one value of that set.
\<close>

definition month_sellers :: "frame \<Rightarrow> period \<Rightarrow> string option set" where
  "month_sellers df p = set (map seller_name (filter (\<lambda>r. order_period r = p) (rows df)))"

text \<open>
  Lines 383--394. Each entry is the pair of the current month (the source stores its
  text \<^verbatim>\<open>str(curr_month)\<close>) and the churn count times \<open>-1\<close>.
\<close>

definition churn_data :: "frame \<Rightarrow> (period \<times> int) list" where
  "churn_data df =
     (let ps = periods df
      in if length ps > 1 then
           map (\<lambda>i. let prev_month = ps ! (i - 1);
                         curr_month = ps ! i;
                         prev_sellers = month_sellers df prev_month;
                         curr_sellers = month_sellers df curr_month;
                         churned = card (prev_sellers - curr_sellers)
                     in (curr_month, int churned * - 1))
               [1 ..< length ps]
         else [])"

text \<open>
  Lines 372--378: the first order of every seller, and the number of sellers whose first
  order falls in each month.
\<close>

definition first_order_date :: "frame \<Rightarrow> (string \<times> timestamp) list" where
  "first_order_date df =
     map (\<lambda>s. (s, Min (set (map order_date (group_rows seller_name (rows df) s)))))
         (group_keys seller_name (rows df))"

definition new_sellers :: "frame \<Rightarrow> (period \<times> nat) list" where
  "new_sellers df =
     (let joined = map (\<lambda>(s, ts). (s, to_period_M ts)) (first_order_date df)
      in map (\<lambda>p. (p, length (filter (\<lambda>(s, q). q = p) joined)))
             (sort (remdups (map snd joined))))"

record seller_analysis =
  total_sellers :: nat
  current_active :: nat
  new_seller_series :: "(period \<times> nat) list"
  churn_series :: "(period \<times> int) list"

text \<open>
  A part of the page that needs an optional column: \<open>Unavailable\<close> when the script
  shows a warning that the column is missing and computes nothing.
\<close>

datatype 'a view = Unavailable | Shown 'a

text \<open>
  Lines 344--396: what the seller tab computes once the run has reached it. Whether a
  run reaches it is \<open>seller_tab\<close> below.
\<close>

definition tab4 :: "frame \<Rightarrow> seller_analysis view" where
  "tab4 df =
     (if Seller_name \<notin> set (columns df) then Unavailable
      else
        (let monthly_seller_counts =
               map (\<lambda>p. nunique (map seller_name (filter (\<lambda>r. order_period r = p) (rows df))))
                   (periods df)
         in Shown \<lparr>total_sellers = nunique (map seller_name (rows df)),
                  current_active =
                    (if monthly_seller_counts \<noteq> [] then last monthly_seller_counts else 0),
                  new_seller_series = new_sellers df,
                  churn_series = churn_data df\<rparr>))"

section \<open>The run of the script (source lines 125--226)\<close>

text \<open>
  What the operator chooses in the sidebar and the prompt: the tuple of the date widget,
  the selected channels, the event checkbox and the keyword.
\<close>

record criteria =
  date_input :: "date list"
  channel_select :: "string option list"
  event_checkbox :: bool
  text_input :: string

text \<open>
  The messages the script shows: the error of \<^verbatim>\<open>load_data\<close> (line 85), the warning of an
  empty search (line 209) and the success line with the number of rows found (line 212).
\<close>

datatype message = Data_file_not_found | No_search_results string | Search_found string nat

record kpis =
  kpi_total_sales :: rat
  kpi_total_orders :: nat
  kpi_avg_order_value :: "rat option"
  kpi_avg_margin :: "rat option"

text \<open>
  How a run ends: \<^verbatim>\<open>st.stop()\<close> after the messages shown so far, an uncaught exception,
  or the KPI row computed from the filtered frame, after which the tabs are drawn.
\<close>

datatype outcome = Stopped "message list" | Raised error | Rendered "message list" frame kpis

text \<open>
  Lines 58--123. \<open>None\<close>: none of the candidate paths holds the data file; the error
  is shown and an empty frame returned. \<open>Some df\<close>: the table read from the file, after
  the conversions of lines 106--121, which the model takes as done.
\<close>

definition load_data :: "frame option \<Rightarrow> message list \<times> frame" where
  "load_data src =
     (case src of
        None \<Rightarrow> ([Data_file_not_found], \<lparr>columns = [], rows = []\<rparr>)
      | Some df \<Rightarrow> ([], df))"

text \<open>
  Lines 152--155 and 176--192: the event checkbox exists only when the frame has the
  event column; then the date, channel and event filters in this order.
\<close>

definition apply_filters :: "criteria \<Rightarrow> frame \<Rightarrow> frame" where
  "apply_filters crit raw_df =
     (let show_event_only =
            (if Event_flag \<in> set (columns raw_df) then event_checkbox crit else False)
      in event_filter show_event_only
           (channel_filter (channel_select crit) (date_filter (date_input crit) raw_df)))"

text \<open>Lines 217--226.\<close>

definition metrics :: "message list \<Rightarrow> frame \<Rightarrow> outcome" where
  "metrics shown df =
     (if Paid_amount \<notin> set (columns df) then Raised (KeyError Paid_amount)
      else
        Rendered shown df
          \<lparr>kpi_total_sales = total_sales df, kpi_total_orders = total_orders df,
           kpi_avg_order_value = avg_order_value df, kpi_avg_margin = avg_margin df\<rparr>)"

text \<open>
  Lines 125--226. The sidebar reads the order date (line 137) and the channel (line 149)
  of the raw frame, so a frame without them raises there.
\<close>

definition pipeline :: "frame option \<Rightarrow> criteria \<Rightarrow> outcome" where
  "pipeline src crit =
     (case load_data src of
        (shown, raw_df) \<Rightarrow>
          if empty_df raw_df then Stopped shown
          else if Order_date \<notin> set (columns raw_df) then Raised (KeyError Order_date)
          else if Channel \<notin> set (columns raw_df) then Raised (KeyError Channel)
          else
            (let df_filtered = apply_filters crit raw_df;
                 prompt = text_input crit
             in if prompt \<noteq> [] then
                  (case keyword_filter prompt df_filtered of
                     Inl e \<Rightarrow> Raised e
                   | Inr found \<Rightarrow>
                       if empty_df found then Stopped (shown @ [No_search_results prompt])
                       else metrics (shown @ [Search_found prompt (length (rows found))]) found)
                else metrics shown df_filtered))"

section \<open>The tabs before the seller tab (source lines 235--339)\<close>

text \<open>
  The script draws its four tabs one after the other, so the seller tab of line 341 is
  reached only when nothing before it raises. The charts of the first three tabs:
  the daily line (line 242), the sunburst (line 254), the channel bars (line 277), the
  scatter plot (line 289) and the region bars (line 302). What the charting library does
  with a frame is outside the source: \<open>px chart df\<close> is the exception, if any, that
  drawing \<open>chart\<close> from the view \<open>df\<close> raises.
\<close>

datatype chart = Daily_line | Sunburst | Channel_bar | Scatter | Region_bar

text \<open>Selecting a column that the frame does not have raises \<open>KeyError\<close>.\<close>

definition need :: "column \<Rightarrow> frame \<Rightarrow> error option" where
  "need c df = (if c \<in> set (columns df) then None else Some (KeyError c))"

definition first_error :: "error option list \<Rightarrow> error option" where
  "first_error steps = (case dropna steps of [] \<Rightarrow> None | e # later \<Rightarrow> Some e)"

text \<open>
  Lines 235--339 in their order: the pandas selections that need a column, and the
  charts. The region chart and table are guarded by the region column (lines 299 and
  316), the VIP table by the UID column (line 329); the channel chart of line 276 selects
  the margin column without a guard.
\<close>

definition tabs_1_to_3 :: "(chart \<Rightarrow> frame \<Rightarrow> error option) \<Rightarrow> frame \<Rightarrow> error option" where
  "tabs_1_to_3 px df =
     first_error
       [need Order_date df, need Paid_amount df, px Daily_line df,
        px Sunburst df,
        need Product_name df, need Quantity df,
        need Channel df, need Margin df, px Channel_bar df,
        px Scatter df,
        (if Region \<in> set (columns df) then px Region_bar df else None),
        (if Region \<in> set (columns df) then need UID df else None),
        (if UID \<in> set (columns df) then need Order_no df else None)]"

text \<open>Lines 235--396: the seller tab as a run of the script reaches it.\<close>

definition seller_tab :: "(chart \<Rightarrow> frame \<Rightarrow> error option) \<Rightarrow> frame
    \<Rightarrow> error + seller_analysis view" where
  "seller_tab px df = (case tabs_1_to_3 px df of Some e \<Rightarrow> Inl e | None \<Rightarrow> Inr (tab4 df))"

section \<open>The properties in the words of the specification\<close>




text \<open>
  A keyword is a case-insensitive substring of a text when the case-folded keyword occurs
  in the case-folded text. \<open>ci_contains\<close> computes the same by a scan.
\<close>

definition ci_substring :: "string \<Rightarrow> string \<Rightarrow> bool" where
  "ci_substring k t = (\<exists>us vs. map lower t = us @ map lower k @ vs)"

fun ci_prefix :: "string \<Rightarrow> string \<Rightarrow> bool" where
  "ci_prefix [] t = True"
| "ci_prefix (k # ks) [] = False"
| "ci_prefix (k # ks) (c # cs) = (lower k = lower c \<and> ci_prefix ks cs)"

fun ci_contains :: "string \<Rightarrow> string \<Rightarrow> bool" where
  "ci_contains k [] = ci_prefix k []"
| "ci_contains k (c # cs) = (ci_prefix k (c # cs) \<or> ci_contains k cs)"

text \<open>The characters that are special in a regular expression.\<close>

definition is_special :: "char \<Rightarrow> bool" where
  "is_special c = (c \<in> set (CHR 0x5C # ''.^$*+?{}[]|()''))"

text \<open>A row is hit when the pattern is found in one of the given columns.\<close>

definition row_hit :: "(string \<Rightarrow> bool) \<Rightarrow> column list \<Rightarrow> order_row \<Rightarrow> bool" where
  "row_hit found_in cols row = (\<exists>c \<in> set cols. found_in (astype_str (text_of c row)))"

section \<open>A stable sorting routine\<close>


section \<open>Sample data\<close>

definition blank :: order_row where
  "blank = \<lparr>order_date = ((2024, 1, 1), 0), channel = None, event_flag = None,
     product_name = None, option_code = None, address = None, purpose = None,
     selected_option = None, quantity = None, paid_amount = None, margin = None,
     uid = None, order_no = None, seller_name = None\<rparr>"

definition on_day :: "date \<Rightarrow> nat \<Rightarrow> order_row" where
  "on_day d t = blank\<lparr>order_date := (d, t)\<rparr>"

definition paid :: "rat \<Rightarrow> order_row" where
  "paid x = blank\<lparr>paid_amount := Some x\<rparr>"

definition via :: "string \<Rightarrow> order_row" where
  "via c = blank\<lparr>channel := Some c\<rparr>"



definition base_columns :: "column list" where
  "base_columns = [Order_date, Channel, Product_name, Quantity, Paid_amount]"

definition named :: "string \<Rightarrow> order_row" where
  "named p = blank\<lparr>product_name := Some p\<rparr>"

definition bought :: "string \<Rightarrow> string \<Rightarrow> rat \<Rightarrow> order_row" where
  "bought u p x = blank\<lparr>uid := Some u, order_no := Some ''n'', product_name := Some p,
     quantity := Some 1, paid_amount := Some x\<rparr>"

definition shop :: frame where
  "shop = \<lparr>columns = [Order_date, Channel, Product_name, Quantity, Paid_amount, UID, Order_no],
     rows = [bought ''b'' ''pear'' 30, bought ''a'' ''apple'' 50, bought ''b'' ''apple'' 20]\<rparr>"

definition margin_shop :: frame where
  "margin_shop = \<lparr>columns = [Order_date, Channel, Product_name, Quantity, Paid_amount, Margin,
       UID, Order_no],
     rows = [(bought ''a'' ''pear'' 30)\<lparr>margin := Some 4\<rparr>]\<rparr>"





definition no_criteria :: criteria where
  "no_criteria = \<lparr>date_input = [], channel_select = [], event_checkbox = False, text_input = []\<rparr>"

section \<open>Evaluation of the keyword filter on sample data\<close>

lemmas kw_eval = keyword_filter_def keyword_filter_with_def re_fragment_def search_cols_def
  re_compile_def push_def close_def seq_of_def str_contains_def astype_str_def lower_def named_def
  blank_def base_columns_def Let_def

section \<open>Date-range filter\<close>

text \<open>
  C2. With a range of two dates, the date filter keeps exactly the rows whose order date,
  time of day dropped, lies between the start and the end date, both ends included, in
  their order and with the columns untouched; a row dated on the start or on the end day of
  a non-inverted range is therefore kept. With a range of any other length the frame is
  returned unchanged.
\<close>

theorem date_filter_inclusive:
  "(length date_range = 2 \<longrightarrow>
      rows (date_filter date_range df) =
        filter (\<lambda>r. date_range ! 0 \<le> dt_date (order_date r)
                   \<and> dt_date (order_date r) \<le> date_range ! 1) (rows df)
      \<and> columns (date_filter date_range df) = columns df
      \<and> (\<forall>r \<in> set (rows df).
            date_range ! 0 \<le> date_range ! 1
            \<and> (dt_date (order_date r) = date_range ! 0 \<or> dt_date (order_date r) = date_range ! 1)
            \<longrightarrow> r \<in> set (rows (date_filter date_range df))))
   \<and> (length date_range \<noteq> 2 \<longrightarrow> date_filter date_range df = df)"
  by (auto simp: date_filter_def Let_def)

theorem date_filter_inclusive_witness:
  "map order_date (rows (date_filter [(2024, 1, 31), (2024, 2, 29)]
      \<lparr>columns = base_columns,
       rows = [on_day (2024, 1, 30) 86399, on_day (2024, 1, 31) 0, on_day (2024, 2, 14) 3600,
               on_day (2024, 2, 29) 86399, on_day (2024, 3, 1) 0]\<rparr>))
     = [((2024, 1, 31), 0), ((2024, 2, 14), 3600), ((2024, 2, 29), 86399)]
   \<and> date_filter [(2024, 1, 31)] \<lparr>columns = base_columns, rows = [on_day (2024, 3, 1) 0]\<rparr>
     = \<lparr>columns = base_columns, rows = [on_day (2024, 3, 1) 0]\<rparr>"
  using date_filter_inclusive [of "[(2024, 1, 31), (2024, 2, 29)]"
      "\<lparr>columns = base_columns,
        rows = [on_day (2024, 1, 30) 86399, on_day (2024, 1, 31) 0, on_day (2024, 2, 14) 3600,
                on_day (2024, 2, 29) 86399, on_day (2024, 3, 1) 0]\<rparr>"]
    date_filter_inclusive [of "[(2024, 1, 31)]"
      "\<lparr>columns = base_columns, rows = [on_day (2024, 3, 1) 0]\<rparr>"]
  by (simp add: on_day_def dt_date_def)

section \<open>Channel filter\<close>

text \<open>
  C8. With a non-empty selection the channel filter keeps exactly the rows whose channel
  is one of the selected values; with the empty selection it returns the frame unchanged.
\<close>

theorem channel_filter_membership:
  "(selected_channels \<noteq> [] \<longrightarrow>
      rows (channel_filter selected_channels df) =
        filter (\<lambda>r. channel r \<in> set selected_channels) (rows df)
      \<and> columns (channel_filter selected_channels df) = columns df)
   \<and> channel_filter [] df = df"
  by (simp add: channel_filter_def)

theorem channel_filter_membership_witness:
  "map channel (rows (channel_filter [Some ''naver'', Some ''kakao'']
      \<lparr>columns = base_columns, rows = [via ''naver'', via ''phone'', via ''kakao'']\<rparr>))
     = [Some ''naver'', Some ''kakao'']"
  using channel_filter_membership [of "[Some ''naver'', Some ''kakao'']"
      "\<lparr>columns = base_columns, rows = [via ''naver'', via ''phone'', via ''kakao'']\<rparr>"]
  by (simp add: via_def)

section \<open>Keyword filter\<close>

lemma mask_loop_found:
  "re prompt = Inr found_in \<Longrightarrow> length msk = length (rows df) \<Longrightarrow>
   mask_loop re prompt df cols msk =
     Inr (map (\<lambda>(m, row). m \<or> row_hit found_in cols row) (zip msk (rows df)))"
proof (induction cols arbitrary: msk)
  case Nil
  then show ?case
    by (simp add: row_hit_def map_fst_zip [symmetric] del: map_fst_zip)
       (metis (mono_tags, lifting) map_fst_zip map_eq_conv case_prod_unfold)
next
  case (Cons col cols)
  let ?hits = "map found_in (map (\<lambda>r. astype_str (text_of col r)) (rows df))"
  let ?msk = "map (\<lambda>(m, h). m \<or> h) (zip msk ?hits)"
  have len: "length ?msk = length (rows df)"
    using Cons.prems by simp
  have "mask_loop re prompt df (col # cols) msk = mask_loop re prompt df cols ?msk"
    using Cons.prems by (simp add: str_contains_def)
  also have "\<dots> = Inr (map (\<lambda>(m, row). m \<or> row_hit found_in cols row) (zip ?msk (rows df)))"
    using Cons.IH [OF Cons.prems(1) len] .
  also have "map (\<lambda>(m, row). m \<or> row_hit found_in cols row) (zip ?msk (rows df))
      = map (\<lambda>(m, row). m \<or> row_hit found_in (col # cols) row) (zip msk (rows df))"
    using Cons.prems(2)
    by (intro nth_equalityI) (auto simp: row_hit_def)
  finally show ?case .
qed

lemma select_by_mask: "map fst (filter snd (zip xs (map P xs))) = filter P xs"
  by (induction xs) auto

lemma fresh_mask:
  "map (\<lambda>(m, row). m \<or> P row) (zip (replicate (length xs) False) xs) = map P xs"
  by (intro nth_equalityI) auto

lemma keyword_filter_with_found:
  assumes "prompt \<noteq> []" "re prompt = Inr found_in"
  shows "keyword_filter_with re prompt df =
    Inr (df\<lparr>rows := filter (row_hit found_in (filter (\<lambda>c. c \<in> set (columns df)) search_cols))
                   (rows df)\<rparr>)"
  using assms
  by (simp add: keyword_filter_with_def Let_def mask_loop_found fresh_mask select_by_mask)


lemma row_hit_valid_cols:
  "row_hit found_in (filter (\<lambda>c. c \<in> set cols) search_cols)
     = (\<lambda>row. \<exists>c \<in> set search_cols. c \<in> set cols \<and> found_in (astype_str (text_of c row)))"
  by (auto simp: row_hit_def fun_eq_iff)



subsection \<open>Keywords without special characters\<close>

lemma parse_literal:
  "\<forall>c \<in> set p. \<not> is_special c \<Longrightarrow>
   parse p [(alts, items, q)] = Compiled (alts_of (alts @ [seq_of (items @ map Lit p)]))"
proof (induction p arbitrary: items q)
  case Nil
  then show ?case by (simp add: close_def)
next
  case (Cons c p)
  from Cons.prems have plain: "\<not> is_special c" and rest: "\<forall>c \<in> set p. \<not> is_special c"
    by simp_all
  from plain have "parse (c # p) [(alts, items, q)] = parse p [(alts, items @ [Lit c], False)]"
    by (simp add: is_special_def push_def)
  with Cons.IH [OF rest] show ?case by simp
qed

lemma re_compile_literal:
  "\<forall>c \<in> set p. \<not> is_special c \<Longrightarrow> re_compile p = Compiled (seq_of (map Lit p))"
  using parse_literal [of p "[]" "[]" False] by (simp add: re_compile_def)

lemma re_fragment_literal:
  "\<forall>c \<in> set p. \<not> is_special c \<Longrightarrow> re_fragment p = Inr (search (seq_of (map Lit p)))"
  by (simp add: re_fragment_def re_compile_literal)

lemma match_here_Fail: "\<not> match_here Fail t"
  by (induction t) auto

lemma match_here_literal: "match_here (seq_of (map Lit p)) t = ci_prefix p t"
proof (induction p arbitrary: t)
  case Nil
  then show ?case by (cases t) (simp_all add: seq_of_def)
next
  case (Cons k ks)
  show ?case
  proof (cases t)
    case Nil
    then show ?thesis by (simp add: seq_of_def)
  next
    case (Cons c cs)
    have "deriv c (seq_of (map Lit (k # ks))) =
        (if lower c = lower k then seq_of (map Lit ks) else Fail)"
      by (simp add: seq_of_def)
    with Cons Cons.IH [of cs] show ?thesis
      by (auto simp: seq_of_def match_here_Fail)
  qed
qed

lemma search_literal: "search (seq_of (map Lit p)) t = ci_contains p t"
proof (induction t)
  case Nil
  show ?case using match_here_literal [of p "[]"] by simp
next
  case (Cons c cs)
  then show ?case using match_here_literal [of p "c # cs"] by simp
qed

lemma ci_prefix_iff: "ci_prefix k t \<longleftrightarrow> (\<exists>vs. map lower t = map lower k @ vs)"
proof (induction k t rule: ci_prefix.induct)
  case (3 k ks c cs)
  then show ?case by auto
qed auto

lemma ci_contains_iff: "ci_contains k t \<longleftrightarrow> ci_substring k t"
proof (induction t)
  case Nil
  show ?case by (cases k) (auto simp: ci_substring_def)
next
  case (Cons c cs)
  have "ci_substring k (c # cs) \<longleftrightarrow>
      (\<exists>vs. map lower (c # cs) = map lower k @ vs) \<or> ci_substring k cs"
  proof
    assume "ci_substring k (c # cs)"
    then obtain us vs where eq: "lower c # map lower cs = us @ map lower k @ vs"
      by (auto simp: ci_substring_def)
    show "(\<exists>vs. map lower (c # cs) = map lower k @ vs) \<or> ci_substring k cs"
    proof (cases us)
      case Nil
      with eq show ?thesis by auto
    next
      case (Cons u us')
      with eq have "map lower cs = us' @ map lower k @ vs" by simp
      then show ?thesis by (auto simp: ci_substring_def)
    qed
  next
    assume "(\<exists>vs. map lower (c # cs) = map lower k @ vs) \<or> ci_substring k cs"
    then show "ci_substring k (c # cs)"
    proof
      assume "\<exists>vs. map lower (c # cs) = map lower k @ vs"
      then obtain vs where "map lower (c # cs) = [] @ map lower k @ vs" by auto
      then show ?thesis unfolding ci_substring_def by blast
    next
      assume "ci_substring k cs"
      then obtain us vs where "map lower cs = us @ map lower k @ vs"
        by (auto simp: ci_substring_def)
      then have "map lower (c # cs) = (lower c # us) @ map lower k @ vs" by simp
      then show ?thesis unfolding ci_substring_def by blast
    qed
  qed
  with Cons show ?case by (simp add: ci_prefix_iff)
qed

text \<open>
  C3, as amended. The empty keyword leaves the frame unchanged. A non-empty keyword
  without a character that is special in a regular expression keeps exactly the rows in
  which the keyword is a case-insensitive substring of the text of one of the searched
  columns the frame has. A keyword of white space only is such a keyword: it is searched
  for, not skipped.
\<close>

theorem keyword_filter_literal:
  "keyword_filter [] df = Inr df
   \<and> (prompt \<noteq> [] \<and> (\<forall>c \<in> set prompt. \<not> is_special c) \<longrightarrow>
        keyword_filter prompt df =
          Inr (df\<lparr>rows := filter (\<lambda>row. \<exists>c \<in> set search_cols. c \<in> set (columns df)
                                 \<and> ci_substring prompt (astype_str (text_of c row))) (rows df)\<rparr>))"
proof (intro conjI impI)
  show "keyword_filter [] df = Inr df"
    by (simp add: keyword_filter_def keyword_filter_with_def)
next
  assume "prompt \<noteq> [] \<and> (\<forall>c \<in> set prompt. \<not> is_special c)"
  then have ne: "prompt \<noteq> []"
    and "re_fragment prompt = Inr (search (seq_of (map Lit prompt)))"
    by (simp_all add: re_fragment_literal)
  then show "keyword_filter prompt df =
      Inr (df\<lparr>rows := filter (\<lambda>row. \<exists>c \<in> set search_cols. c \<in> set (columns df)
                             \<and> ci_substring prompt (astype_str (text_of c row))) (rows df)\<rparr>)"
    by (simp add: keyword_filter_def keyword_filter_with_found row_hit_valid_cols search_literal
        ci_contains_iff)
qed

theorem keyword_filter_literal_witness:
  "keyword_filter [] \<lparr>columns = base_columns, rows = [named ''Seoul pear'', named ''Busan'']\<rparr>
     = Inr \<lparr>columns = base_columns, rows = [named ''Seoul pear'', named ''Busan'']\<rparr>
   \<and> keyword_filter ''SEO'' \<lparr>columns = base_columns, rows = [named ''Seoul pear'', named ''Busan'']\<rparr>
     = Inr \<lparr>columns = base_columns, rows = [named ''Seoul pear'']\<rparr>
   \<and> keyword_filter '' '' \<lparr>columns = base_columns, rows = [named ''Seoul pear'', named ''Busan'']\<rparr>
     = Inr \<lparr>columns = base_columns, rows = [named ''Seoul pear'']\<rparr>"
  using keyword_filter_literal [of "\<lparr>columns = base_columns,
        rows = [named ''Seoul pear'', named ''Busan'']\<rparr>" "''SEO''"]
    keyword_filter_literal [of "\<lparr>columns = base_columns,
        rows = [named ''Seoul pear'', named ''Busan'']\<rparr>" "'' ''"]
  by (simp add: ci_contains_iff [symmetric] is_special_def search_cols_def base_columns_def
      astype_str_def named_def blank_def lower_def)

text \<open>
  The claim as stated fails. The keyword of one space is not a no-op: it drops the row
  without a space. The keyword \<^verbatim>\<open>a.c\<close> keeps a row whose text does not contain it as a
  substring.
\<close>

theorem keyword_filter_counterexample:
  "keyword_filter '' '' \<lparr>columns = base_columns, rows = [named ''a b'', named ''ab'']\<rparr>
     = Inr \<lparr>columns = base_columns, rows = [named ''a b'']\<rparr>
   \<and> keyword_filter ''a.c'' \<lparr>columns = base_columns, rows = [named ''abc'']\<rparr>
     = Inr \<lparr>columns = base_columns, rows = [named ''abc'']\<rparr>
   \<and> \<not> ci_substring ''a.c'' ''abc''"
  by (simp add: kw_eval ci_contains_iff [symmetric])

section \<open>Average order value\<close>

text \<open>
  C5. The average order value never divides by zero: it is total sales divided by the
  number of orders when there is at least one order, and exactly 0 when the view has no
  row.
\<close>

theorem avg_order_value_safe:
  "(total_orders df > 0 \<longrightarrow>
      avg_order_value df = Some (total_sales df / of_nat (total_orders df)))
   \<and> (rows df = [] \<longrightarrow> avg_order_value df = Some 0)
   \<and> avg_order_value df \<noteq> None"
  by (simp add: avg_order_value_def float_div_def total_orders_def)

theorem avg_order_value_safe_witness:
  "avg_order_value \<lparr>columns = base_columns, rows = [paid 100, paid 50, paid 30]\<rparr> = Some 60
   \<and> avg_order_value \<lparr>columns = base_columns, rows = []\<rparr> = Some 0"
  using avg_order_value_safe [of "\<lparr>columns = base_columns, rows = [paid 100, paid 50, paid 30]\<rparr>"]
    avg_order_value_safe [of "\<lparr>columns = base_columns, rows = []\<rparr>"]
  by (simp add: total_orders_def total_sales_def series_sum_def paid_def)

section \<open>Empty results and load failure\<close>

lemma columns_apply_filters: "columns (apply_filters crit raw_df) = columns raw_df"
  by (simp add: apply_filters_def date_filter_def channel_filter_def event_filter_def Let_def)

text \<open>
  C4, as amended. A load failure stops the run before any filter: with no data file the
  only message is the load error, and an empty table stops the run silently. When a
  non-empty keyword leaves no row, the run shows the no-results warning, which is not the
  load error, and stops there: no KPI and no table is computed. When the view is empty
  and no keyword is given, nothing is signalled and the KPIs are computed from the empty
  view.
\<close>

theorem empty_result_stops_pipeline:
  "pipeline None crit = Stopped [Data_file_not_found]
   \<and> (empty_df raw_df \<longrightarrow> pipeline (Some raw_df) crit = Stopped [])
   \<and> (\<not> empty_df raw_df \<and> Order_date \<in> set (columns raw_df) \<and> Channel \<in> set (columns raw_df)
        \<and> text_input crit \<noteq> []
        \<and> keyword_filter (text_input crit) (apply_filters crit raw_df) = Inr found
        \<and> rows found = [] \<longrightarrow>
        pipeline (Some raw_df) crit = Stopped [No_search_results (text_input crit)])
   \<and> (\<not> empty_df raw_df \<and> Order_date \<in> set (columns raw_df) \<and> Channel \<in> set (columns raw_df)
        \<and> Paid_amount \<in> set (columns raw_df)
        \<and> text_input crit = [] \<and> rows (apply_filters crit raw_df) = [] \<longrightarrow>
        pipeline (Some raw_df) crit =
          Rendered [] (apply_filters crit raw_df)
            \<lparr>kpi_total_sales = 0, kpi_total_orders = 0, kpi_avg_order_value = Some 0,
             kpi_avg_margin = avg_margin (apply_filters crit raw_df)\<rparr>)"
proof (intro conjI impI)
  show "pipeline None crit = Stopped [Data_file_not_found]"
    by (simp add: pipeline_def load_data_def empty_df_def)
next
  assume "empty_df raw_df"
  then show "pipeline (Some raw_df) crit = Stopped []"
    by (simp add: pipeline_def load_data_def)
next
  assume "\<not> empty_df raw_df \<and> Order_date \<in> set (columns raw_df) \<and> Channel \<in> set (columns raw_df)
      \<and> text_input crit \<noteq> []
      \<and> keyword_filter (text_input crit) (apply_filters crit raw_df) = Inr found
      \<and> rows found = []"
  then show "pipeline (Some raw_df) crit = Stopped [No_search_results (text_input crit)]"
    by (simp add: pipeline_def load_data_def Let_def empty_df_def)
next
  assume a: "\<not> empty_df raw_df \<and> Order_date \<in> set (columns raw_df) \<and> Channel \<in> set (columns raw_df)
      \<and> Paid_amount \<in> set (columns raw_df)
      \<and> text_input crit = [] \<and> rows (apply_filters crit raw_df) = []"
  then have "metrics [] (apply_filters crit raw_df) =
      Rendered [] (apply_filters crit raw_df)
        \<lparr>kpi_total_sales = 0, kpi_total_orders = 0, kpi_avg_order_value = Some 0,
         kpi_avg_margin = avg_margin (apply_filters crit raw_df)\<rparr>"
    by (simp add: metrics_def columns_apply_filters avg_order_value_def total_orders_def
        total_sales_def series_sum_def)
  with a show "pipeline (Some raw_df) crit =
      Rendered [] (apply_filters crit raw_df)
        \<lparr>kpi_total_sales = 0, kpi_total_orders = 0, kpi_avg_order_value = Some 0,
         kpi_avg_margin = avg_margin (apply_filters crit raw_df)\<rparr>"
    by (simp add: pipeline_def load_data_def Let_def)
qed

theorem empty_result_stops_pipeline_witness:
  "pipeline None no_criteria = Stopped [Data_file_not_found]
   \<and> pipeline (Some \<lparr>columns = base_columns, rows = []\<rparr>) no_criteria = Stopped []
   \<and> pipeline (Some shop) (no_criteria\<lparr>text_input := ''zzz''\<rparr>)
       = Stopped [No_search_results ''zzz'']
   \<and> pipeline (Some shop) (no_criteria\<lparr>channel_select := [Some ''fax'']\<rparr>)
       = Rendered [] (shop\<lparr>rows := []\<rparr>)
           \<lparr>kpi_total_sales = 0, kpi_total_orders = 0, kpi_avg_order_value = Some 0,
            kpi_avg_margin = Some 0\<rparr>"
proof -
  have ne: "\<not> empty_df shop" and cols: "Order_date \<in> set (columns shop)"
     "Channel \<in> set (columns shop)" "Paid_amount \<in> set (columns shop)"
    by (simp_all add: shop_def empty_df_def)
  have kw: "keyword_filter (text_input (no_criteria\<lparr>text_input := ''zzz''\<rparr>))
      (apply_filters (no_criteria\<lparr>text_input := ''zzz''\<rparr>) shop) = Inr (shop\<lparr>rows := []\<rparr>)"
    by code_simp
  have nokw: "apply_filters (no_criteria\<lparr>channel_select := [Some ''fax'']\<rparr>) shop = shop\<lparr>rows := []\<rparr>"
    by code_simp
  have am: "avg_margin (shop\<lparr>rows := []\<rparr>) = Some 0"
    by (simp add: avg_margin_def shop_def)
  have none: "empty_df \<lparr>columns = base_columns, rows = []\<rparr>"
    by (simp add: empty_df_def)
  show ?thesis
    using empty_result_stops_pipeline [of no_criteria "\<lparr>columns = base_columns, rows = []\<rparr>"
        "shop\<lparr>rows := []\<rparr>"]
      empty_result_stops_pipeline [of "no_criteria\<lparr>text_input := ''zzz''\<rparr>" shop "shop\<lparr>rows := []\<rparr>"]
      empty_result_stops_pipeline [of "no_criteria\<lparr>channel_select := [Some ''fax'']\<rparr>" shop
        "shop\<lparr>rows := []\<rparr>"]
      ne cols kw nokw am none
    by (simp add: no_criteria_def)
qed

text \<open>
  The claim as stated fails: a keyword that matches no row ends the run before the KPIs
  and the tables, so the empty result is not local to one view.
\<close>

theorem empty_result_counterexample:
  "pipeline (Some shop) (no_criteria\<lparr>text_input := ''zzz''\<rparr>) = Stopped [No_search_results ''zzz'']"
  by code_simp

section \<open>Missing optional columns\<close>

lemma first_error_Some: "Some e \<in> set steps \<Longrightarrow> first_error steps \<noteq> None"
proof -
  assume "Some e \<in> set steps"
  then have "e \<in> set (dropna steps)"
    by (induction steps rule: dropna.induct) auto
  then show ?thesis
    by (cases "dropna steps") (auto simp: first_error_def)
qed

text \<open>
  On a frame without the margin column no run reaches the seller tab: the channel chart
  of line 276 raises before it.
\<close>

lemma seller_tab_needs_margin:
  "Margin \<notin> set (columns df) \<Longrightarrow> \<exists>e. seller_tab px df = Inl e"
proof -
  assume "Margin \<notin> set (columns df)"
  then have "need Margin df = Some (KeyError Margin)"
    by (simp add: need_def)
  then have "tabs_1_to_3 px df \<noteq> None"
    unfolding tabs_1_to_3_def by (intro first_error_Some [of "KeyError Margin"]) simp
  then show ?thesis
    by (auto simp: seller_tab_def)
qed

text \<open>
  C6, as amended. Without the margin column the average-margin KPI is not left out: it
  is the number 0. Without the seller column, a run that reaches the seller tab, because
  none of the tabs before it raises, shows the warning that the analysis is unavailable
  and computes nothing of it.
\<close>

theorem missing_column_handling:
  "(Margin \<notin> set (columns df) \<longrightarrow> avg_margin df = Some 0)
   \<and> (Seller_name \<notin> set (columns df) \<and> tabs_1_to_3 px df = None \<longrightarrow>
        seller_tab px df = Inr Unavailable)"
  by (simp add: avg_margin_def seller_tab_def tab4_def)

theorem missing_column_handling_witness:
  "avg_margin shop = Some 0
   \<and> tabs_1_to_3 (\<lambda>chart df. None) margin_shop = None
   \<and> seller_tab (\<lambda>chart df. None) margin_shop = Inr Unavailable"
proof -
  have reach: "tabs_1_to_3 (\<lambda>chart df. None) margin_shop = None"
    by (simp add: tabs_1_to_3_def first_error_def need_def margin_shop_def)
  show ?thesis
    using missing_column_handling [of shop] missing_column_handling [of margin_shop "\<lambda>chart df. None"]
      reach
    by (simp add: shop_def margin_shop_def)
qed

text \<open>
  The claim as stated fails: on a frame without the margin column the KPI row is
  rendered with an average margin of 0.
\<close>

theorem missing_margin_counterexample:
  "Margin \<notin> set (columns shop)
   \<and> pipeline (Some shop) no_criteria =
       Rendered [] shop \<lparr>kpi_total_sales = 100, kpi_total_orders = 3,
         kpi_avg_order_value = Some (100 / 3), kpi_avg_margin = Some 0\<rparr>"
  by code_simp

section \<open>Sorting\<close>







section \<open>Product ranking\<close>










section \<open>VIP table\<close>








section \<open>Seller churn\<close>





end
